theory Spec2Isabelle
  imports Main
begin

section \<open>Data model (the package file declaring \<open>Error\<close>, \<open>StackTrace\<close>, \<open>FromErr\<close>)\<close>

text \<open>
  \<open>StackTraceElement\<close> is one frame of a trace; \<open>StackTrace\<close> is a Go slice of them.
  Go's \<open>int\<close> is taken to be 64 bits wide; the only place where the width matters is
  \<open>strconv.Atoi\<close> below.
\<close>

record StackTraceElement =
  LineNumber :: int
  PackageName :: string
  FileName :: string
  MethodName :: string

type_synonym StackTrace = "StackTraceElement list"

text \<open>
  The \<open>Error\<close> struct. The field \<open>Data\<close> has Go type \<open>interface{}\<close>: a value of an
  arbitrary type \<open>'v\<close>, or the nil interface (\<open>None\<close>).
\<close>

record 'v Error =
  InnerError :: string
  Data :: "'v option"
  ClassName :: string
  Message :: string
  StackTrace :: StackTrace

text \<open>\<open>func (e Error) Error() string\<close>\<close>

definition Error_Error :: "'v Error \<Rightarrow> string" where
  "Error_Error e = Message e"

text \<open>\<open>func (s *StackTrace) AddEntry(lineNumber, packageName, fileName, methodName)\<close>:
  the receiver is passed in and the extended slice is returned.\<close>

definition AddEntry :: "StackTrace \<Rightarrow> int \<Rightarrow> string \<Rightarrow> string \<Rightarrow> string \<Rightarrow> StackTrace" where
  "AddEntry s lineNumber packageName fileName methodName =
     s @ [\<lparr>LineNumber = lineNumber, PackageName = packageName,
           FileName = fileName, MethodName = methodName\<rparr>]"

section \<open>Values of the interface type \<open>error\<close>\<close>

text \<open>
  A frame descriptor of \<open>github.com/pkg/errors\<close> is opaque to this package: the code only
  looks at three renderings of it, \<open>fmt.Sprintf("%d", line)\<close>, \<open>fmt.Sprintf("%+s", line)\<close>
  and \<open>fmt.Sprintf("%n", line)\<close>. The formatter belongs to the foreign library, so a
  descriptor is modelled by the three strings it renders to.
\<close>

record Frame =
  fmt_d :: string
  fmt_plus_s :: string
  fmt_n :: string

text \<open>
  A value of the interface type \<open>error\<close> is the nil interface, a value of this package's
  struct \<open>Error\<close>, or a value of some other dynamic type. Of the latter the code observes
  the text of \<open>Error()\<close> and, through type assertions, five optional methods:
  \<open>Cause() error\<close>, \<open>Class() string\<close>, \<open>data() interface{}\<close>,
  \<open>StackTrace() pkgerr.StackTrace\<close> and \<open>StackTrace() []string\<close>. An absent method is
  \<open>None\<close>; a present one is \<open>Some\<close> of what the call returns. The two \<open>StackTrace\<close>
  assertions are made one after the other by the code and are modelled as two independent
  probes (a single Go type declares one method of that name, so a Go value answers at most
  one of them; the model is the more permissive).
\<close>

datatype 'v goerror =
    NilError
  | Raygun "'v Error"
  | Custom (Error_m: string)
           (Cause_m: "'v goerror option")
           (Class_m: "string option")
           (data_m: "'v option option")
           (StackTrace1_m: "Frame list option")
           (StackTrace2_m: "string list option")

text \<open>A run-time panic of the Go program.\<close>

datatype panic = NilDereference | IndexOutOfRange | SliceBoundsOutOfRange

text \<open>The dynamic call \<open>err.Error()\<close>; on the nil interface it panics.\<close>

fun err_Error :: "'v goerror \<Rightarrow> panic + string" where
  "err_Error NilError = Inl NilDereference"
| "err_Error (Raygun e) = Inr (Error_Error e)"
| "err_Error (Custom m c cl d s1 s2) = Inr m"

text \<open>
  The type assertions \<open>err.(causer)\<close>, \<open>err.(classer)\<close>, \<open>err.(dataer)\<close>,
  \<open>err.(stackTracer1)\<close> and \<open>err.(stackTracer2)\<close>, each followed by the call of the
  method. They fail on the nil interface and on the struct \<open>Error\<close>, whose only method is
  \<open>Error()\<close>.
\<close>

fun causer :: "'v goerror \<Rightarrow> 'v goerror option" where
  "causer NilError = None"
| "causer (Raygun e) = None"
| "causer (Custom m c cl d s1 s2) = c"

fun classer :: "'v goerror \<Rightarrow> string option" where
  "classer NilError = None"
| "classer (Raygun e) = None"
| "classer (Custom m c cl d s1 s2) = cl"

fun dataer :: "'v goerror \<Rightarrow> 'v option option" where
  "dataer NilError = None"
| "dataer (Raygun e) = None"
| "dataer (Custom m c cl d s1 s2) = d"

fun stackTracer1 :: "'v goerror \<Rightarrow> Frame list option" where
  "stackTracer1 NilError = None"
| "stackTracer1 (Raygun e) = None"
| "stackTracer1 (Custom m c cl d s1 s2) = s1"

fun stackTracer2 :: "'v goerror \<Rightarrow> string list option" where
  "stackTracer2 NilError = None"
| "stackTracer2 (Raygun e) = None"
| "stackTracer2 (Custom m c cl d s1 s2) = s2"

section \<open>Functions of the Go standard library used by \<open>util.go\<close>\<close>

text \<open>
  \<open>strings.Split(s, sep)\<close> for a non-empty separator: the pieces of \<open>s\<close> between the
  occurrences of \<open>sep\<close>, found from left to right without overlap. Every call site passes
  a non-empty literal; the empty separator (Go explodes the string) is not modelled.
\<close>

fun Split :: "string \<Rightarrow> string \<Rightarrow> string list" where
  "Split [] sep = [[]]"
| "Split (c # cs) sep =
     (if sep \<noteq> [] \<and> take (length sep) (c # cs) = sep
      then [] # Split (drop (length sep - 1) cs) sep
      else (case Split cs sep of
              [] \<Rightarrow> [[c]]
            | p # ps \<Rightarrow> (c # p) # ps))"

text \<open>\<open>strings.Join(elems, sep)\<close>\<close>

fun Join :: "string list \<Rightarrow> string \<Rightarrow> string" where
  "Join [] sep = []"
| "Join [x] sep = x"
| "Join (x # y # ys) sep = x @ sep @ Join (y # ys) sep"

text \<open>
  \<open>strconv.Atoi\<close>: an optional sign, then one or more decimal digits and nothing else;
  the value must fit a 64-bit \<open>int\<close>. \<open>None\<close> stands for a non-nil \<open>err\<close>.
\<close>

definition is_digit :: "char \<Rightarrow> bool" where
  "is_digit c = (48 \<le> (of_char c :: nat) \<and> (of_char c :: nat) \<le> 57)"

fun digits_value :: "nat \<Rightarrow> string \<Rightarrow> nat option" where
  "digits_value n [] = Some n"
| "digits_value n (c # cs) =
     (if is_digit c then digits_value (n * 10 + (of_char c - 48)) cs else None)"

definition Atoi :: "string \<Rightarrow> int option" where
  "Atoi s =
     (case s of
        [] \<Rightarrow> None
      | c # cs \<Rightarrow>
          (let body = (if c = CHR ''-'' \<or> c = CHR ''+'' then cs else s) in
           if body = [] then None
           else (case digits_value 0 body of
                   None \<Rightarrow> None
                 | Some n \<Rightarrow>
                     (let v = (if c = CHR ''-'' then - int n else int n) in
                      if - (2 ^ 63) \<le> v \<and> v < 2 ^ 63 then Some v else None))))"

section \<open>\<open>util.go\<close>\<close>

text \<open>
  \<open>cause\<close>: the loop replaces \<open>err\<close> by \<open>Cause()\<close> as long as the assertion succeeds and
  the call returns a non-nil error. Values of \<open>goerror\<close> are finite trees, so the chains
  modelled here are the finite, acyclic ones.
\<close>

function cause :: "'v goerror \<Rightarrow> 'v goerror" where
  "cause err =
     (case causer err of
        None \<Rightarrow> err
      | Some c \<Rightarrow> if c = NilError then err else cause c)"
  by pat_completeness auto

lemma causer_size: "causer e = Some c \<Longrightarrow> size c < size e"
  by (cases e) auto

termination cause
  by (relation "measure size") (auto dest: causer_size)

text \<open>\<open>class\<close> and \<open>data\<close>: one type assertion on the value passed in.\<close>

definition "class" :: "'v goerror \<Rightarrow> string" where
  "class err = (case classer err of Some s \<Rightarrow> s | None \<Rightarrow> [])"

definition data :: "'v goerror \<Rightarrow> 'v option" where
  "data err = (case dataer err of Some v \<Rightarrow> v | None \<Rightarrow> None)"

text \<open>
  \<open>stacktrace\<close>, first branch (the loop over a \<open>pkgerr.StackTrace\<close>). \<open>stack\<close> is the
  trace built so far. \<open>parts[0]\<close> exists for every string, since \<open>strings.Split\<close> returns
  at least one piece; \<open>parts[1]\<close> and the slice \<open>packparts[:len(packparts)-1]\<close> panic
  when out of range.
\<close>

fun stacktrace_pkg :: "StackTrace \<Rightarrow> Frame list \<Rightarrow> panic + StackTrace" where
  "stacktrace_pkg stack [] = Inr stack"
| "stacktrace_pkg stack (line # s) =
     (let n = (case Atoi (fmt_d line) of Some n \<Rightarrow> n | None \<Rightarrow> - 1);
          filename = fmt_plus_s line;
          parts = Split filename [CHR 0x0A, CHR 0x09];
          packparts = Split (hd parts) ''.''
      in if length packparts < 1 then Inl SliceBoundsOutOfRange
         else (let pack = Join (take (length packparts - 1) packparts) ''.''
               in if length parts \<le> 1 then Inl IndexOutOfRange
                  else stacktrace_pkg (AddEntry stack n pack (parts ! 1) (fmt_n line)) s))"

text \<open>
  Second branch (the loop over a \<open>[]string\<close>): \<open>parts[1]\<close> is read before anything is
  appended, and panics when the line holds no colon.
\<close>

fun stacktrace_juju :: "StackTrace \<Rightarrow> string list \<Rightarrow> panic + StackTrace" where
  "stacktrace_juju stack [] = Inr stack"
| "stacktrace_juju stack (line # s) =
     (let parts = Split line '':''
      in if length parts \<le> 1 then Inl IndexOutOfRange
         else (let n = (case Atoi (parts ! 1) of Some n \<Rightarrow> n | None \<Rightarrow> - 1)
               in stacktrace_juju (AddEntry stack n [] (hd parts) []) s))"

text \<open>
  Third branch. \<open>runtime.Stack\<close> reads the goroutine's stack and \<open>stack2struct.Parse\<close>
  (a foreign library) appends the frames it recognises to \<open>stack\<close>, empty at this point;
  \<open>parsed\<close> stands for those frames. The slice expression \<open>stack[2:]\<close> panics when the
  slice is shorter than two.
\<close>

definition stacktrace_raw :: "StackTrace \<Rightarrow> panic + StackTrace" where
  "stacktrace_raw parsed =
     (let stack = [] @ parsed
      in if length stack < 2 then Inl SliceBoundsOutOfRange else Inr (drop 2 stack))"

text \<open>\<open>stacktrace\<close>: the three branches in the order of the source.\<close>

definition stacktrace :: "StackTrace \<Rightarrow> 'v goerror \<Rightarrow> panic + StackTrace" where
  "stacktrace parsed err =
     (case stackTracer1 err of
        Some s \<Rightarrow> stacktrace_pkg [] s
      | None \<Rightarrow>
          (case stackTracer2 err of
             Some s \<Rightarrow> stacktrace_juju [] s
           | None \<Rightarrow> stacktrace_raw parsed))"

section \<open>\<open>FromErr\<close>\<close>

text \<open>
  The part of \<open>FromErr\<close> after the type assertion \<open>err.(Error)\<close>: the composite literal,
  whose fields are evaluated in the order written. \<open>InnerError\<close> is not set (the line
  that would set it is commented out in the source) and keeps the zero value.
\<close>

definition FromErr_literal :: "StackTrace \<Rightarrow> 'v goerror \<Rightarrow> panic + 'v Error" where
  "FromErr_literal parsed err =
     (case err_Error err of
        Inl p \<Rightarrow> Inl p
      | Inr message \<Rightarrow>
          (let className = class err;
               d = data err
           in case stacktrace parsed err of
                Inl p \<Rightarrow> Inl p
              | Inr st \<Rightarrow>
                  Inr \<lparr>InnerError = [], Data = d, ClassName = className,
                       Message = message, StackTrace = st\<rparr>))"

definition FromErr :: "StackTrace \<Rightarrow> 'v goerror \<Rightarrow> panic + 'v Error" where
  "FromErr parsed err =
     (case err of
        Raygun e \<Rightarrow> Inr e
      | _ \<Rightarrow> FromErr_literal parsed err)"

section \<open>Notions used to state the properties\<close>

text \<open>
  The loop of \<open>cause\<close> with a counter \<open>k\<close> of the assignments \<open>err = c\<close> it has made.
\<close>

function cause_count :: "nat \<Rightarrow> 'v goerror \<Rightarrow> 'v goerror \<times> nat" where
  "cause_count k err =
     (case causer err of
        None \<Rightarrow> (err, k)
      | Some c \<Rightarrow> if c = NilError then (err, k) else cause_count (Suc k) c)"
  by pat_completeness auto

termination cause_count
  by (relation "measure (\<lambda>(k, e). size e)") (auto dest: causer_size)

text \<open>
  A cause chain of depth \<open>n\<close>: \<open>n\<close> links to a non-nil cause can be followed from \<open>e\<close>, and
  the error reached has no \<open>Cause\<close> method or one that returns nil. \<open>nth_cause n e\<close> is the
  error reached after \<open>n\<close> links.
\<close>

fun chain_depth_is :: "nat \<Rightarrow> 'v goerror \<Rightarrow> bool" where
  "chain_depth_is 0 e = (causer e = None \<or> causer e = Some NilError)"
| "chain_depth_is (Suc n) e =
     (case causer e of
        None \<Rightarrow> False
      | Some c \<Rightarrow> c \<noteq> NilError \<and> chain_depth_is n c)"

fun nth_cause :: "nat \<Rightarrow> 'v goerror \<Rightarrow> 'v goerror" where
  "nth_cause 0 e = e"
| "nth_cause (Suc n) e = (case causer e of None \<Rightarrow> e | Some c \<Rightarrow> nth_cause n c)"


text \<open>
  The reference scenario of \<open>TestFromErr\<close> and of the README:
  \<open>pkerr.Wrap(pkerr.New("new error"), "wrapped err")\<close>. The foreign library builds an
  error whose text is \<open>wrapped err: new error\<close>, whose \<open>Cause()\<close> chain leads through the
  message wrapper to the root error \<open>new error\<close>, and whose \<open>StackTrace()\<close> holds the four
  frames that the README lists.
\<close>

definition README_frames :: "Frame list" where
  "README_frames =
     [\<lparr>fmt_d = ''77'',
       fmt_plus_s = ''github.com/codeclysm/raygun_test.wrapErr'' @ [CHR 0x0A, CHR 0x09] @
                    ''/opt/workspace/github.com/codeclysm/raygun/raygun_test.go'',
       fmt_n = ''wrapErr''\<rparr>,
      \<lparr>fmt_d = ''31'',
       fmt_plus_s = ''github.com/codeclysm/raygun_test.TestFromErr'' @ [CHR 0x0A, CHR 0x09] @
                    ''/opt/workspace/github.com/codeclysm/raygun/raygun_test.go'',
       fmt_n = ''TestFromErr''\<rparr>,
      \<lparr>fmt_d = ''657'',
       fmt_plus_s = ''testing.tRunner'' @ [CHR 0x0A, CHR 0x09] @
                    ''/usr/local/go/src/testing/testing.go'',
       fmt_n = ''tRunner''\<rparr>,
      \<lparr>fmt_d = ''2197'',
       fmt_plus_s = ''runtime.goexit'' @ [CHR 0x0A, CHR 0x09] @
                    ''/usr/local/go/src/runtime/asm_amd64.s'',
       fmt_n = ''goexit''\<rparr>]"

definition wrapped_pkg_error :: "unit goerror" where
  "wrapped_pkg_error =
     Custom ''wrapped err: new error''
       (Some (Custom ''wrapped err: new error''
                (Some (Custom ''new error'' None None None (Some (tl README_frames)) None))
                None None None None))
       None None (Some README_frames) None"

section \<open>Auxiliary facts\<close>







lemma cause_count_fst: "fst (cause_count k e) = cause e"
proof (induction k e rule: cause_count.induct)
  case (1 k err)
  then show ?case by (cases "causer err") auto
qed

lemma cause_count_chain:
  "chain_depth_is n e \<Longrightarrow> cause_count k e = (nth_cause n e, k + n)"
proof (induction n arbitrary: k e)
  case 0
  then show ?case by auto
next
  case (Suc n)
  then show ?case by (cases "causer e") auto
qed

lemma chain_depth_exists: "\<exists>n. chain_depth_is n e"
proof (induction e rule: cause.induct)
  case (1 err)
  show ?case
  proof (cases "causer err")
    case None
    then have "chain_depth_is 0 err" by simp
    then show ?thesis ..
  next
    case (Some c)
    show ?thesis
    proof (cases "c = NilError")
      case True
      with Some have "chain_depth_is 0 err" by simp
      then show ?thesis ..
    next
      case False
      with Some 1 obtain n where "chain_depth_is n c" by auto
      with Some False have "chain_depth_is (Suc n) err" by simp
      then show ?thesis ..
    qed
  qed
qed

lemma chain_depth_unique: "chain_depth_is n e \<Longrightarrow> chain_depth_is m e \<Longrightarrow> n = m"
proof (induction n arbitrary: m e)
  case 0
  then show ?case by (cases m) (auto split: option.splits)
next
  case (Suc n)
  then show ?case by (cases m) (auto split: option.splits)
qed

section \<open>The properties\<close>

text \<open>
  C1. Introspection is idempotent. An error that already is a value of the struct \<open>Error\<close>
  is returned by \<open>FromErr\<close> as it is, whatever stack the call would capture; hence
  applying \<open>FromErr\<close> to the result of \<open>FromErr\<close> changes nothing, for every error (a
  panic of the first call is the outcome of the composition as well).
\<close>

theorem FromErr_idempotent:
  "FromErr parsed (Raygun e) = Inr e \<and>
   (case FromErr parsed err of
      Inl p \<Rightarrow> Inl p
    | Inr r \<Rightarrow> FromErr parsed' (Raygun r)) = FromErr parsed err"
proof
  show "FromErr parsed (Raygun e) = Inr e"
    by (simp add: FromErr_def)
next
  show "(case FromErr parsed err of
           Inl p \<Rightarrow> Inl p
         | Inr r \<Rightarrow> FromErr parsed' (Raygun r)) = FromErr parsed err"
    by (cases "FromErr parsed err") (simp_all add: FromErr_def)
qed

text \<open>
  C2. \<open>stacktrace\<close> tries its strategies in a fixed order and the first applicable one
  wins. An error that answers both the structured-frame assertion and the string-line
  assertion gets the result of the structured-frame loop; whenever the first assertion
  succeeds the second is not consulted; the string-line loop runs when only the second
  succeeds; the raw capture is used when neither does, and only then: as soon as one of
  the two capabilities is present, the result does not depend on the captured stack.
\<close>

theorem stacktrace_priority:
  "(stackTracer1 err = Some s \<and> stackTracer2 err = Some t \<longrightarrow>
      stacktrace parsed err = stacktrace_pkg [] s) \<and>
   (stackTracer1 err = Some s \<longrightarrow> stacktrace parsed err = stacktrace_pkg [] s) \<and>
   (stackTracer1 err = None \<and> stackTracer2 err = Some t \<longrightarrow>
      stacktrace parsed err = stacktrace_juju [] t) \<and>
   (stackTracer1 err = None \<and> stackTracer2 err = None \<longrightarrow>
      stacktrace parsed err = stacktrace_raw parsed) \<and>
   (stackTracer1 err \<noteq> None \<or> stackTracer2 err \<noteq> None \<longrightarrow>
      stacktrace parsed err = stacktrace parsed' err)"
  by (auto simp: stacktrace_def split: option.splits)

theorem stacktrace_priority_witness:
  "stackTracer1 (Custom ''e'' None None None
       (Some [\<lparr>fmt_d = ''7'', fmt_plus_s = ''p.f'' @ [CHR 0x0A, CHR 0x09] @ ''a.go'',
               fmt_n = ''f''\<rparr>])
       (Some [''b.go:3'']) :: unit goerror)
     = Some [\<lparr>fmt_d = ''7'', fmt_plus_s = ''p.f'' @ [CHR 0x0A, CHR 0x09] @ ''a.go'',
              fmt_n = ''f''\<rparr>] \<and>
   stackTracer2 (Custom ''e'' None None None
       (Some [\<lparr>fmt_d = ''7'', fmt_plus_s = ''p.f'' @ [CHR 0x0A, CHR 0x09] @ ''a.go'',
               fmt_n = ''f''\<rparr>])
       (Some [''b.go:3'']) :: unit goerror) = Some [''b.go:3''] \<and>
   stacktrace [] (Custom ''e'' None None None
       (Some [\<lparr>fmt_d = ''7'', fmt_plus_s = ''p.f'' @ [CHR 0x0A, CHR 0x09] @ ''a.go'',
               fmt_n = ''f''\<rparr>])
       (Some [''b.go:3'']) :: unit goerror)
     = Inr [\<lparr>LineNumber = 7, PackageName = ''p'', FileName = ''a.go'', MethodName = ''f''\<rparr>] \<and>
   stacktrace [] (Custom ''e'' None None None None (Some [''b.go:3'']) :: unit goerror)
     = Inr [\<lparr>LineNumber = 3, PackageName = [], FileName = ''b.go'', MethodName = []\<rparr>] \<and>
   stacktrace
       [\<lparr>LineNumber = 1, PackageName = ''raygun'', FileName = ''util.go'', MethodName = ''stacktrace''\<rparr>,
        \<lparr>LineNumber = 2, PackageName = ''raygun'', FileName = ''raygun.go'', MethodName = ''FromErr''\<rparr>,
        \<lparr>LineNumber = 3, PackageName = ''main'', FileName = ''main.go'', MethodName = ''main''\<rparr>]
       (Custom ''e'' None None None None None :: unit goerror)
     = Inr [\<lparr>LineNumber = 3, PackageName = ''main'', FileName = ''main.go'', MethodName = ''main''\<rparr>]"
  using
    stacktrace_priority [of "Custom ''e'' None None None
       (Some [\<lparr>fmt_d = ''7'', fmt_plus_s = ''p.f'' @ [CHR 0x0A, CHR 0x09] @ ''a.go'',
               fmt_n = ''f''\<rparr>])
       (Some [''b.go:3'']) :: unit goerror"
       "[\<lparr>fmt_d = ''7'', fmt_plus_s = ''p.f'' @ [CHR 0x0A, CHR 0x09] @ ''a.go'', fmt_n = ''f''\<rparr>]"
       "[''b.go:3'']" "[]" "[]"]
    stacktrace_priority [of "Custom ''e'' None None None None (Some [''b.go:3'']) :: unit goerror"
       "[]" "[''b.go:3'']" "[]" "[]"]
    stacktrace_priority [of "Custom ''e'' None None None None None :: unit goerror" "[]" "[]"
       "[\<lparr>LineNumber = 1, PackageName = ''raygun'', FileName = ''util.go'', MethodName = ''stacktrace''\<rparr>,
         \<lparr>LineNumber = 2, PackageName = ''raygun'', FileName = ''raygun.go'', MethodName = ''FromErr''\<rparr>,
         \<lparr>LineNumber = 3, PackageName = ''main'', FileName = ''main.go'', MethodName = ''main''\<rparr>]"
       "[]"]
  by (simp add: Atoi_def is_digit_def AddEntry_def stacktrace_raw_def)

text \<open>
  C3. Cause resolution. The nil error is returned as it is; an error without the \<open>Cause\<close>
  method is returned as it is; a \<open>Cause\<close> method that returns nil ends the unwrapping at
  the error that has it; a non-nil cause replaces the error and the resolution goes on from
  there. Every error of the model has a cause chain of some finite depth, and on a chain of
  depth \<open>n\<close> the loop makes exactly \<open>n\<close> replacements and returns the error at the end of
  the chain.
\<close>

theorem cause_resolution:
  "cause (NilError :: 'v goerror) = NilError \<and>
   (causer err = None \<longrightarrow> cause err = err) \<and>
   (causer err = Some NilError \<longrightarrow> cause err = err) \<and>
   (causer err = Some c \<and> c \<noteq> NilError \<longrightarrow> cause err = cause c) \<and>
   (\<exists>d. chain_depth_is d err) \<and>
   (chain_depth_is n err \<longrightarrow>
      cause_count 0 err = (nth_cause n err, n) \<and> cause err = nth_cause n err)"
proof -
  have nil: "cause (NilError :: 'v goerror) = NilError" by simp
  have absent: "causer err = None \<longrightarrow> cause err = err" by simp
  have nil_cause: "causer err = Some NilError \<longrightarrow> cause err = err" by simp
  have link: "causer err = Some c \<and> c \<noteq> NilError \<longrightarrow> cause err = cause c" by simp
  have finite: "\<exists>d. chain_depth_is d err" by (rule chain_depth_exists)
  have steps: "chain_depth_is n err \<longrightarrow>
      cause_count 0 err = (nth_cause n err, n) \<and> cause err = nth_cause n err"
  proof
    assume d: "chain_depth_is n err"
    then have cnt: "cause_count 0 err = (nth_cause n err, n)"
      using cause_count_chain [of n err 0] by simp
    moreover have "cause err = nth_cause n err"
      using cnt cause_count_fst [of 0 err] by simp
    ultimately show "cause_count 0 err = (nth_cause n err, n) \<and> cause err = nth_cause n err"
      by simp
  qed
  from nil absent nil_cause link finite steps show ?thesis by blast
qed

theorem cause_resolution_witness:
  "causer (Custom ''root'' None None None None None :: unit goerror) = None \<and>
   cause (Custom ''root'' None None None None None :: unit goerror)
     = Custom ''root'' None None None None None \<and>
   causer (Custom ''top'' (Some NilError) None None None None :: unit goerror) = Some NilError \<and>
   cause (Custom ''top'' (Some NilError) None None None None :: unit goerror)
     = Custom ''top'' (Some NilError) None None None None \<and>
   chain_depth_is 2
     (Custom ''a: b: root''
        (Some (Custom ''b: root'' (Some (Custom ''root'' None None None None None))
                 None None None None))
        None None None None :: unit goerror) \<and>
   cause_count 0
     (Custom ''a: b: root''
        (Some (Custom ''b: root'' (Some (Custom ''root'' None None None None None))
                 None None None None))
        None None None None :: unit goerror)
     = (Custom ''root'' None None None None None, 2) \<and>
   cause
     (Custom ''a: b: root''
        (Some (Custom ''b: root'' (Some (Custom ''root'' None None None None None))
                 None None None None))
        None None None None :: unit goerror)
     = Custom ''root'' None None None None None"
  using
    cause_resolution [of "Custom ''root'' None None None None None :: unit goerror" NilError 0]
    cause_resolution [of "Custom ''top'' (Some NilError) None None None None :: unit goerror"
       NilError 0]
    cause_resolution [of "Custom ''a: b: root''
        (Some (Custom ''b: root'' (Some (Custom ''root'' None None None None None))
                 None None None None))
        None None None None :: unit goerror"
       "Custom ''b: root'' (Some (Custom ''root'' None None None None None)) None None None None"
       2]
  by (simp add: numeral_2_eq_2)

text \<open>
  C8. The presence of a capability selects the strategy, not the length of what it
  returns. A structured-frame capability that returns no descriptor gives the empty trace;
  so does a string-line capability that returns no line, when it is the one consulted (the
  structured-frame capability is absent, as it is for every Go value that has the
  string-line one). In both cases the captured stack \<open>parsed\<close> plays no part.
\<close>

theorem stacktrace_empty_sequence:
  "(stackTracer1 err = Some [] \<longrightarrow> stacktrace parsed err = Inr []) \<and>
   (stackTracer1 err = None \<and> stackTracer2 err = Some [] \<longrightarrow> stacktrace parsed err = Inr [])"
  by (simp add: stacktrace_def)

theorem stacktrace_empty_sequence_witness:
  "stackTracer1 (Custom ''e'' None None None (Some []) None :: unit goerror) = Some [] \<and>
   stacktrace
       [\<lparr>LineNumber = 1, PackageName = ''raygun'', FileName = ''util.go'', MethodName = ''stacktrace''\<rparr>,
        \<lparr>LineNumber = 2, PackageName = ''raygun'', FileName = ''raygun.go'', MethodName = ''FromErr''\<rparr>,
        \<lparr>LineNumber = 3, PackageName = ''main'', FileName = ''main.go'', MethodName = ''main''\<rparr>]
       (Custom ''e'' None None None (Some []) None :: unit goerror) = Inr [] \<and>
   stackTracer1 (Custom ''e'' None None None None (Some []) :: unit goerror) = None \<and>
   stackTracer2 (Custom ''e'' None None None None (Some []) :: unit goerror) = Some [] \<and>
   stacktrace
       [\<lparr>LineNumber = 1, PackageName = ''raygun'', FileName = ''util.go'', MethodName = ''stacktrace''\<rparr>,
        \<lparr>LineNumber = 2, PackageName = ''raygun'', FileName = ''raygun.go'', MethodName = ''FromErr''\<rparr>,
        \<lparr>LineNumber = 3, PackageName = ''main'', FileName = ''main.go'', MethodName = ''main''\<rparr>]
       (Custom ''e'' None None None None (Some []) :: unit goerror) = Inr []"
  using
    stacktrace_empty_sequence [of "Custom ''e'' None None None (Some []) None :: unit goerror"
       "[\<lparr>LineNumber = 1, PackageName = ''raygun'', FileName = ''util.go'', MethodName = ''stacktrace''\<rparr>,
         \<lparr>LineNumber = 2, PackageName = ''raygun'', FileName = ''raygun.go'', MethodName = ''FromErr''\<rparr>,
         \<lparr>LineNumber = 3, PackageName = ''main'', FileName = ''main.go'', MethodName = ''main''\<rparr>]"]
    stacktrace_empty_sequence [of "Custom ''e'' None None None None (Some []) :: unit goerror"
       "[\<lparr>LineNumber = 1, PackageName = ''raygun'', FileName = ''util.go'', MethodName = ''stacktrace''\<rparr>,
         \<lparr>LineNumber = 2, PackageName = ''raygun'', FileName = ''raygun.go'', MethodName = ''FromErr''\<rparr>,
         \<lparr>LineNumber = 3, PackageName = ''main'', FileName = ''main.go'', MethodName = ''main''\<rparr>]"]
  by simp



text \<open>
  C10. A value of the struct \<open>Error\<close> is an error whose text is its field \<open>Message\<close>: the
  method \<open>Error()\<close> returns it, and so does the dynamic call on the interface value.
  Hence the part of \<open>FromErr\<close> behind the short-circuit, run on such a value with a
  captured stack that holds the two frames to drop, builds an \<open>Error\<close> with the same
  message.
\<close>

theorem Error_text_is_Message:
  "Error_Error e = Message e \<and>
   err_Error (Raygun e) = Inr (Message e) \<and>
   FromErr_literal (f1 # f2 # rest) (Raygun e) =
     Inr \<lparr>InnerError = [], Data = None, ClassName = [], Message = Message e,
          StackTrace = rest\<rparr>"
  by (simp add: Error_Error_def FromErr_literal_def class_def data_def stacktrace_def
        stacktrace_raw_def)







text \<open>
  C4. Introspection is meant never to fail, and the code does absorb a line field that is
  not a number (the frame gets \<open>-1\<close>). It still panics on inputs it can receive: a
  string-line trace with a line that holds no colon (the read of \<open>parts[1]\<close>), here the
  trace of an annotated plain error whose innermost line is the bare message; and the nil
  error (the call \<open>err.Error()\<close>).
\<close>

theorem FromErr_panics:
  "FromErr parsed
     (Custom ''wrapped err: new error'' (Some (Custom ''new error'' None None None None None))
        None None None (Some [''new error'', ''raygun_test.go:76: wrapped err''])
      :: unit goerror)
     = Inl IndexOutOfRange \<and>
   FromErr parsed (NilError :: unit goerror) = Inl NilDereference \<and>
   stacktrace_juju [] [''raygun_test.go:x: wrapped err'']
     = Inr [\<lparr>LineNumber = - 1, PackageName = [], FileName = ''raygun_test.go'',
             MethodName = []\<rparr>]"
  by (simp add: FromErr_def FromErr_literal_def class_def data_def stacktrace_def Atoi_def
        is_digit_def AddEntry_def)

text \<open>
  C5. For the wrapped error of the reference scenario, \<open>FromErr\<close> returns the message
  \<open>wrapped err: new error\<close> and the four frames, but leaves \<open>InnerError\<close> empty: the
  assignment of the root cause's text is commented out in the source. The root cause that
  \<open>cause\<close> resolves does have the text \<open>new error\<close>.
\<close>

theorem FromErr_wrapped_pkg_error:
  "FromErr parsed wrapped_pkg_error =
     Inr \<lparr>InnerError = [], Data = None, ClassName = [],
          Message = ''wrapped err: new error'',
          StackTrace =
            [\<lparr>LineNumber = 77, PackageName = ''github.com/codeclysm/raygun_test'',
              FileName = ''/opt/workspace/github.com/codeclysm/raygun/raygun_test.go'',
              MethodName = ''wrapErr''\<rparr>,
             \<lparr>LineNumber = 31, PackageName = ''github.com/codeclysm/raygun_test'',
              FileName = ''/opt/workspace/github.com/codeclysm/raygun/raygun_test.go'',
              MethodName = ''TestFromErr''\<rparr>,
             \<lparr>LineNumber = 657, PackageName = ''testing'',
              FileName = ''/usr/local/go/src/testing/testing.go'',
              MethodName = ''tRunner''\<rparr>,
             \<lparr>LineNumber = 2197, PackageName = ''runtime'',
              FileName = ''/usr/local/go/src/runtime/asm_amd64.s'',
              MethodName = ''goexit''\<rparr>]\<rparr> \<and>
   err_Error (cause wrapped_pkg_error) = Inr ''new error''"
  by (simp add: FromErr_def FromErr_literal_def wrapped_pkg_error_def README_frames_def
        class_def data_def stacktrace_def Atoi_def is_digit_def AddEntry_def)

end
